theory Spec2Isabelle
  imports Complex_Main
begin

section \<open>Decoded JSON values\<close>

text \<open>
  The endpoint decodes every inbound frame with \<^verbatim>\<open>json.loads\<close> and encodes every
  outbound one with \<^verbatim>\<open>json.dumps\<close>. A decoded value is one of Python's \<^verbatim>\<open>None\<close>,
  \<^verbatim>\<open>bool\<close>, \<^verbatim>\<open>int\<close>, \<^verbatim>\<open>float\<close>, \<^verbatim>\<open>str\<close>, \<^verbatim>\<open>list\<close>, \<^verbatim>\<open>dict\<close>. A float is
  kept only as far as its comparison with zero needs: a finite value, an infinity or NaN
  (\<^verbatim>\<open>json.loads\<close> accepts all three).
\<close>

datatype pyfloat = Finite real | PosInf | NegInf | NaN

datatype json =
    JNull
  | JBool bool
  | JInt int
  | JFloat pyfloat
  | JStr string
  | JArr "json list"
  | JObj "(string \<times> json) list"

text \<open>Python truthiness, as \<^verbatim>\<open>if x:\<close> and \<^verbatim>\<open>and\<close>/\<^verbatim>\<open>or\<close>/\<^verbatim>\<open>all\<close> test it.\<close>

fun truthy :: "json \<Rightarrow> bool" where
  "truthy JNull = False"
| "truthy (JBool b) = b"
| "truthy (JInt n) = (n \<noteq> 0)"
| "truthy (JFloat (Finite r)) = (r \<noteq> 0)"
| "truthy (JFloat _) = True"
| "truthy (JStr s) = (s \<noteq> [])"
| "truthy (JArr xs) = (xs \<noteq> [])"
| "truthy (JObj kvs) = (kvs \<noteq> [])"

text \<open>\<^verbatim>\<open>d.get(k)\<close> and \<^verbatim>\<open>d.get(k, default)\<close> on a decoded object.\<close>

definition dict_get_default :: "(string \<times> json) list \<Rightarrow> string \<Rightarrow> json \<Rightarrow> json" where
  "dict_get_default d k dflt = (case map_of d k of None \<Rightarrow> dflt | Some v \<Rightarrow> v)"

definition dict_get :: "(string \<times> json) list \<Rightarrow> string \<Rightarrow> json" where
  "dict_get d k = dict_get_default d k JNull"

section \<open>The data model (models.py) and the manager's state\<close>

record user =
  id' :: string
  username :: string
  socket_id :: string

record room =
  room_id :: string
  users :: "user list"

text \<open>
  A transport handle is opaque to the manager: it is stored, looked up and sent on.
  What a send does is the environment's choice, so every \<^verbatim>\<open>send_text\<close> is recorded as
  an attempt with its outcome: the socket id whose handle was used, the message, and
  whether the send returned (\<open>True\<close>) or raised (\<open>False\<close>).
\<close>

type_synonym websocket = nat

datatype attempt = Attempt (dest: string) (payload: json) (delivered: bool)

text \<open>
  The five dictionaries of \<^verbatim>\<open>ConnectionManager\<close>, and the history of the send attempts
  made so far (\<open>wire\<close>), which is the manager's only effect outside its own fields.
\<close>

record manager =
  rooms :: "string \<rightharpoonup> room"
  active_connections :: "string \<rightharpoonup> websocket"
  user_sockets :: "string \<rightharpoonup> string"
  socket_users :: "string \<rightharpoonup> string"
  socket_rooms :: "string \<rightharpoonup> string"
  wire :: "attempt list"

definition init :: manager where
  "init = \<lparr>rooms = Map.empty, active_connections = Map.empty, user_sockets = Map.empty,
            socket_users = Map.empty, socket_rooms = Map.empty, wire = []\<rparr>"

text \<open>
  The environment: whether the \<open>n\<close>-th send attempt of the run, made on the handle of
  socket \<open>c\<close>, succeeds. Every theorem below holds for every environment unless it
  says otherwise.
\<close>

type_synonym network = "nat \<Rightarrow> string \<Rightarrow> bool"

definition send_text :: "network \<Rightarrow> string \<Rightarrow> json \<Rightarrow> manager \<Rightarrow> bool \<times> manager" where
  "send_text net c msg s =
     (let ok = net (length (wire s)) c
      in (ok, s\<lparr>wire := wire s @ [Attempt c msg ok]\<rparr>))"

section \<open>websocket_manager.py\<close>

definition connect :: "websocket \<Rightarrow> string \<Rightarrow> manager \<Rightarrow> manager" where
  "connect ws sid s = s\<lparr>active_connections := (active_connections s)(sid \<mapsto> ws)\<rparr>"

text \<open>
  \<^verbatim>\<open>disconnect\<close>: \<^verbatim>\<open>if k in d: del d[k]\<close> is \<open>d(k := None)\<close>. The username read at entry
  is tested for truthiness (\<^verbatim>\<open>if username:\<close>), so an absent or empty one skips the
  clean-up of the two username tables. The room directory is not touched.
\<close>

definition disconnect :: "string \<Rightarrow> manager \<Rightarrow> manager" where
  "disconnect sid s =
     (let uname = socket_users s sid;
          s1 = s\<lparr>active_connections := (active_connections s)(sid := None)\<rparr>;
          s2 = (case uname of
                  None \<Rightarrow> s1
                | Some u \<Rightarrow>
                    if u \<noteq> [] then
                      s1\<lparr>user_sockets := (user_sockets s1)(u := None),
                         socket_users := (socket_users s1)(sid := None)\<rparr>
                    else s1)
      in s2\<lparr>socket_rooms := (socket_rooms s2)(sid := None)\<rparr>)"

text \<open>
  The loop of \<^verbatim>\<open>broadcast_to_room\<close> over \<^verbatim>\<open>room.users\<close>: the accumulator is the state
  (only its \<open>wire\<close> grows) and the list \<^verbatim>\<open>disconnected_sockets\<close>.
\<close>

fun broadcast_loop ::
  "network \<Rightarrow> json \<Rightarrow> string option \<Rightarrow> user list \<Rightarrow> manager \<times> string list \<Rightarrow> manager \<times> string list"
where
  "broadcast_loop net msg exclude_socket [] acc = acc"
| "broadcast_loop net msg exclude_socket (u # us) (s, disconnected_sockets) =
     (if Some (socket_id u) \<noteq> exclude_socket then
        (case active_connections s (socket_id u) of
           Some ws \<Rightarrow>
             (case send_text net (socket_id u) msg s of
                (True, s') \<Rightarrow> broadcast_loop net msg exclude_socket us (s', disconnected_sockets)
              | (False, s') \<Rightarrow>
                  broadcast_loop net msg exclude_socket us (s', disconnected_sockets @ [socket_id u]))
         | None \<Rightarrow> broadcast_loop net msg exclude_socket us (s, disconnected_sockets @ [socket_id u]))
      else broadcast_loop net msg exclude_socket us (s, disconnected_sockets))"

definition broadcast_to_room :: "network \<Rightarrow> string \<Rightarrow> json \<Rightarrow> string option \<Rightarrow> manager \<Rightarrow> manager" where
  "broadcast_to_room net rid msg exclude_socket s =
     (case rooms s rid of
        None \<Rightarrow> s
      | Some rm \<Rightarrow>
          (case broadcast_loop net msg exclude_socket (users rm) (s, []) of
             (s', disconnected_sockets) \<Rightarrow> fold disconnect disconnected_sockets s'))"

definition user_entry :: "user \<Rightarrow> json" where
  "user_entry u = JObj [(''username'', JStr (username u)), (''id'', JStr (id' u))]"

definition online_users :: "user list \<Rightarrow> json" where
  "online_users us = JObj [(''type'', JStr ''online_users''), (''users'', JArr (map user_entry us))]"

definition send_user_list :: "network \<Rightarrow> string \<Rightarrow> manager \<Rightarrow> manager" where
  "send_user_list net rid s =
     (case rooms s rid of
        None \<Rightarrow> s
      | Some rm \<Rightarrow> broadcast_to_room net rid (online_users (users rm)) None s)"

definition get_room_users :: "manager \<Rightarrow> string \<Rightarrow> json list" where
  "get_room_users s rid = (case rooms s rid of None \<Rightarrow> [] | Some rm \<Rightarrow> map user_entry (users rm))"

definition user_joined :: "string \<Rightarrow> json" where
  "user_joined uname =
     JObj [(''type'', JStr ''user_joined''), (''username'', JStr uname),
           (''message'', JStr (uname @ '' has joined the room!''))]"

definition user_left :: "string \<Rightarrow> json" where
  "user_left uname =
     JObj [(''type'', JStr ''user_left''), (''username'', JStr uname),
           (''message'', JStr (uname @ '' has left the room!''))]"

text \<open>
  The part of \<^verbatim>\<open>join_room\<close> before its first \<^verbatim>\<open>await\<close> (the three tables, the lazily
  created room, the member list with the stale entries filtered out and the new member
  appended), and \<^verbatim>\<open>join_room\<close> itself, which then notifies the room.
\<close>

definition join_room_tables :: "string \<Rightarrow> string \<Rightarrow> string \<Rightarrow> manager \<Rightarrow> manager" where
  "join_room_tables sid rid uname s =
     (let us1 = (case socket_users s sid of
                   None \<Rightarrow> user_sockets s
                 | Some old_username \<Rightarrow>
                     if old_username \<noteq> [] \<and> old_username \<noteq> uname
                     then (user_sockets s)(old_username := None)
                     else user_sockets s);
          s1 = s\<lparr>user_sockets := us1(uname \<mapsto> sid),
                 socket_users := (socket_users s)(sid \<mapsto> uname),
                 socket_rooms := (socket_rooms s)(sid \<mapsto> rid)\<rparr>;
          rm = (case rooms s1 rid of
                  None \<Rightarrow> \<lparr>room_id = rid, users = []\<rparr>
                | Some r \<Rightarrow> r);
          rm' = rm\<lparr>users := filter (\<lambda>u. id' u \<noteq> sid \<and> username u \<noteq> uname) (users rm)
                              @ [\<lparr>id' = sid, username = uname, socket_id = sid\<rparr>]\<rparr>
      in s1\<lparr>rooms := (rooms s1)(rid \<mapsto> rm')\<rparr>)"

definition join_room :: "network \<Rightarrow> string \<Rightarrow> string \<Rightarrow> string \<Rightarrow> manager \<Rightarrow> manager" where
  "join_room net sid rid uname s =
     send_user_list net rid
       (broadcast_to_room net rid (user_joined uname) (Some sid)
          (join_room_tables sid rid uname s))"

definition leave_room :: "network \<Rightarrow> string \<Rightarrow> string \<Rightarrow> manager \<Rightarrow> manager" where
  "leave_room net sid rid s =
     (case rooms s rid of
        None \<Rightarrow> s
      | Some rm \<Rightarrow>
          (let uname = socket_users s sid;
               initial_count = length (users rm);
               rm' = rm\<lparr>users := filter (\<lambda>u. id' u \<noteq> sid) (users rm)\<rparr>;
               s1 = s\<lparr>rooms := (rooms s)(rid \<mapsto> rm')\<rparr>;
               s2 = (case uname of
                       None \<Rightarrow> s1
                     | Some u \<Rightarrow>
                         if length (users rm') < initial_count \<and> u \<noteq> []
                         then broadcast_to_room net rid (user_left u) None s1
                         else s1);
               s3 = send_user_list net rid s2
           in if users rm' = [] then s3\<lparr>rooms := (rooms s3)(rid := None)\<rparr> else s3))"

definition send_personal_message :: "network \<Rightarrow> string \<Rightarrow> json \<Rightarrow> manager \<Rightarrow> bool \<times> manager" where
  "send_personal_message net sid msg s =
     (case active_connections s sid of
        Some ws \<Rightarrow>
          (case send_text net sid msg s of
             (True, s') \<Rightarrow> (True, s')
           | (False, s') \<Rightarrow> (False, disconnect sid s'))
      | None \<Rightarrow> (False, s))"

definition send_to_user :: "network \<Rightarrow> string \<Rightarrow> json \<Rightarrow> manager \<Rightarrow> bool \<times> manager" where
  "send_to_user net uname msg s =
     (case user_sockets s uname of
        None \<Rightarrow> (False, s)
      | Some sid \<Rightarrow> if sid \<noteq> [] then send_personal_message net sid msg s else (False, s))"

section \<open>main.py: the body of the endpoint's receive loop\<close>

text \<open>
  One pass of the \<^verbatim>\<open>while True\<close> loop of \<^verbatim>\<open>websocket_endpoint\<close>, for the connection
  \<open>sid\<close> of room \<open>rid\<close>, after \<^verbatim>\<open>receive_text\<close> returned and \<^verbatim>\<open>json.loads\<close> decoded
  the frame. The pass ends in one of three ways: the loop goes on (\<open>Continue\<close>); an
  exception reached one of the two \<^verbatim>\<open>except\<close> clauses, both of which run
  \<^verbatim>\<open>leave_room\<close> and \<^verbatim>\<open>disconnect\<close> and leave the loop (\<open>Closed\<close>); or a field that the
  manager's signatures annotate as \<^verbatim>\<open>str\<close> (a username used as a dictionary key)
  holds a truthy value that is not a string, where the behaviour depends on the value's
  hashability and on the validation library, and is left out (\<open>Unmodelled\<close>).
\<close>

datatype outcome = Continue | Closed | Unmodelled

definition on_exception :: "network \<Rightarrow> string \<Rightarrow> string \<Rightarrow> manager \<Rightarrow> outcome \<times> manager" where
  "on_exception net sid rid s = (Closed, disconnect sid (leave_room net sid rid s))"

text \<open>\<^verbatim>\<open>await websocket.send_text(json.dumps(msg))\<close> in the endpoint, outside any \<^verbatim>\<open>try\<close>
  of its own: a failed send raises into the endpoint's \<^verbatim>\<open>except\<close> clause.\<close>

definition reply :: "network \<Rightarrow> string \<Rightarrow> string \<Rightarrow> json \<Rightarrow> manager \<Rightarrow> outcome \<times> manager" where
  "reply net sid rid msg s =
     (case send_text net sid msg s of
        (True, s') \<Rightarrow> (Continue, s')
      | (False, s') \<Rightarrow> on_exception net sid rid s')"

definition join_success :: "string \<Rightarrow> string \<Rightarrow> json" where
  "join_success rid sid =
     JObj [(''type'', JStr ''join_success''), (''room_id'', JStr rid), (''socket_id'', JStr sid)]"

definition error_notice :: "string \<Rightarrow> json" where
  "error_notice text = JObj [(''type'', JStr ''error''), (''message'', JStr text)]"

definition handle_join_room ::
  "network \<Rightarrow> string \<Rightarrow> string \<Rightarrow> (string \<times> json) list \<Rightarrow> manager \<Rightarrow> outcome \<times> manager"
where
  "handle_join_room net sid rid message_data s =
     (let uname = dict_get message_data ''username''
      in if truthy uname then
           (case uname of
              JStr u \<Rightarrow> reply net sid rid (join_success rid sid) (join_room net sid rid u s)
            | _ \<Rightarrow> (Unmodelled, s))
         else (Continue, s))"

definition new_message :: "json \<Rightarrow> json \<Rightarrow> json \<Rightarrow> json" where
  "new_message uname message timestamp =
     JObj [(''type'', JStr ''new_message''), (''username'', uname), (''message'', message),
           (''timestamp'', timestamp)]"

definition handle_chat_message ::
  "network \<Rightarrow> string \<Rightarrow> string \<Rightarrow> (string \<times> json) list \<Rightarrow> manager \<Rightarrow> outcome \<times> manager"
where
  "handle_chat_message net sid rid message_data s =
     (let uname = dict_get message_data ''username'';
          message = dict_get message_data ''message''
      in if truthy uname \<and> truthy message then
           (Continue,
            broadcast_to_room net rid
              (new_message uname message (dict_get message_data ''timestamp'')) None s)
         else (Continue, s))"

definition webrtc_signal :: "json \<Rightarrow> json \<Rightarrow> json" where
  "webrtc_signal sender signal_data =
     JObj [(''type'', JStr ''webrtc_signal''), (''sender'', sender), (''data'', signal_data)]"

text \<open>
  The log line of the \<^verbatim>\<open>webrtc_signal\<close> branch calls \<^verbatim>\<open>signal_data.get\<close> before the
  fields are tested, so a missing \<^verbatim>\<open>data\<close> field, or one that is not an object,
  raises there.
\<close>

definition handle_webrtc_signal ::
  "network \<Rightarrow> string \<Rightarrow> string \<Rightarrow> (string \<times> json) list \<Rightarrow> manager \<Rightarrow> outcome \<times> manager"
where
  "handle_webrtc_signal net sid rid message_data s =
     (let sender = dict_get message_data ''sender'';
          target = dict_get message_data ''target'';
          signal_data = dict_get message_data ''data''
      in case signal_data of
           JObj _ \<Rightarrow>
             if truthy sender \<and> truthy target \<and> truthy signal_data then
               (case target of
                  JStr t \<Rightarrow>
                    (case send_to_user net t (webrtc_signal sender signal_data) s of
                       (True, s') \<Rightarrow> (Continue, s')
                     | (False, s') \<Rightarrow>
                         reply net sid rid
                           (error_notice (''Failed to deliver WebRTC signal to '' @ t)) s')
                | _ \<Rightarrow> (Unmodelled, s))
             else (Continue, s)
         | _ \<Rightarrow> on_exception net sid rid s)"

text \<open>
  \<^verbatim>\<open>if not isinstance(file_size, (int, float)) or file_size < 0: file_size = 0\<close>.
  Python's \<^verbatim>\<open>bool\<close> is a subclass of \<^verbatim>\<open>int\<close>, and neither \<^verbatim>\<open>True < 0\<close> nor
  \<^verbatim>\<open>False < 0\<close> holds, so a decoded \<^verbatim>\<open>true\<close> or \<^verbatim>\<open>false\<close> passes the test unchanged.
  NaN compares false with everything.
\<close>

fun float_negative :: "pyfloat \<Rightarrow> bool" where
  "float_negative (Finite r) = (r < 0)"
| "float_negative NegInf = True"
| "float_negative PosInf = False"
| "float_negative NaN = False"

fun checked_file_size :: "json \<Rightarrow> json" where
  "checked_file_size (JInt n) = (if n < 0 then JInt 0 else JInt n)"
| "checked_file_size (JFloat f) = (if float_negative f then JInt 0 else JFloat f)"
| "checked_file_size (JBool b) = JBool b"
| "checked_file_size _ = JInt 0"

definition file_transfer_request :: "json \<Rightarrow> json \<Rightarrow> json \<Rightarrow> json \<Rightarrow> json" where
  "file_transfer_request sender filename file_size file_type =
     JObj [(''type'', JStr ''file_transfer_request''), (''sender'', sender),
           (''filename'', filename), (''file_size'', file_size), (''file_type'', file_type)]"

definition handle_file_transfer_request ::
  "network \<Rightarrow> string \<Rightarrow> string \<Rightarrow> (string \<times> json) list \<Rightarrow> manager \<Rightarrow> outcome \<times> manager"
where
  "handle_file_transfer_request net sid rid message_data s =
     (let sender = dict_get message_data ''sender'';
          target = dict_get message_data ''target'';
          filename = dict_get message_data ''filename'';
          file_size = dict_get message_data ''file_size'';
          file_type = dict_get_default message_data ''file_type'' (JStr ''application/octet-stream'')
      in if \<not> (truthy sender \<and> truthy target) then
           reply net sid rid (error_notice ''Invalid file transfer request'') s
         else
           (case target of
              JStr t \<Rightarrow>
                (case send_to_user net t
                        (file_transfer_request sender
                           (if truthy filename then filename else JStr ''Unknown file'')
                           (checked_file_size file_size) file_type) s of
                   (True, s') \<Rightarrow> (Continue, s')
                 | (False, s') \<Rightarrow>
                     reply net sid rid (error_notice (''User '' @ t @ '' is not available'')) s')
            | _ \<Rightarrow> (Unmodelled, s)))"

definition file_transfer_response :: "json \<Rightarrow> json \<Rightarrow> json \<Rightarrow> json" where
  "file_transfer_response sender accepted filename =
     JObj [(''type'', JStr ''file_transfer_response''), (''sender'', sender),
           (''accepted'', accepted), (''filename'', filename)]"

definition handle_file_transfer_response ::
  "network \<Rightarrow> string \<Rightarrow> string \<Rightarrow> (string \<times> json) list \<Rightarrow> manager \<Rightarrow> outcome \<times> manager"
where
  "handle_file_transfer_response net sid rid message_data s =
     (let sender = dict_get message_data ''sender'';
          target = dict_get message_data ''target'';
          accepted = dict_get message_data ''accepted'';
          filename = dict_get_default message_data ''filename'' (JStr ''Unknown file'')
      in if truthy sender \<and> truthy target then
           (case target of
              JStr t \<Rightarrow>
                (case send_to_user net t (file_transfer_response sender accepted filename) s of
                   (success, s') \<Rightarrow> (Continue, s'))
            | _ \<Rightarrow> (Unmodelled, s))
         else (Continue, s))"

text \<open>The dispatch on \<^verbatim>\<open>message_data.get("type")\<close>; a decoded frame that is not an
  object has no \<^verbatim>\<open>get\<close> and raises.\<close>

definition on_message :: "network \<Rightarrow> string \<Rightarrow> string \<Rightarrow> json \<Rightarrow> manager \<Rightarrow> outcome \<times> manager" where
  "on_message net sid rid frame s =
     (case frame of
        JObj message_data \<Rightarrow>
          (let message_type = dict_get message_data ''type''
           in if message_type = JStr ''join_room'' then handle_join_room net sid rid message_data s
              else if message_type = JStr ''chat_message'' then handle_chat_message net sid rid message_data s
              else if message_type = JStr ''webrtc_signal'' then handle_webrtc_signal net sid rid message_data s
              else if message_type = JStr ''file_transfer_request''
                then handle_file_transfer_request net sid rid message_data s
              else if message_type = JStr ''file_transfer_response''
                then handle_file_transfer_response net sid rid message_data s
              else (Continue, s))
      | _ \<Rightarrow> on_exception net sid rid s)"

section \<open>Runs of manager operations\<close>

datatype operation =
    Connect websocket string
  | Disconnect string
  | Join string string string
  | Leave string string

fun apply_operation :: "network \<Rightarrow> operation \<Rightarrow> manager \<Rightarrow> manager" where
  "apply_operation net (Connect ws sid) s = connect ws sid s"
| "apply_operation net (Disconnect sid) s = disconnect sid s"
| "apply_operation net (Join sid rid uname) s = join_room net sid rid uname s"
| "apply_operation net (Leave sid rid) s = leave_room net sid rid s"

definition run :: "network \<Rightarrow> operation list \<Rightarrow> manager" where
  "run net ops = fold (apply_operation net) ops init"

section \<open>What a broadcast puts on the wire\<close>

text \<open>
  The attempts a pass over the recipients \<open>cs\<close> makes when it starts as the \<open>n\<close>-th
  attempt of the run, and the recipients of a broadcast: the members' socket ids, in
  member order, that are not the excluded one and have a registered handle.
\<close>

fun attempts_from :: "network \<Rightarrow> nat \<Rightarrow> json \<Rightarrow> string list \<Rightarrow> attempt list" where
  "attempts_from net n msg [] = []"
| "attempts_from net n msg (c # cs) = Attempt c msg (net n c) # attempts_from net (Suc n) msg cs"

definition recipients :: "manager \<Rightarrow> string option \<Rightarrow> user list \<Rightarrow> string list" where
  "recipients s exclude_socket us =
     filter (\<lambda>c. Some c \<noteq> exclude_socket \<and> active_connections s c \<noteq> None) (map socket_id us)"

definition members :: "manager \<Rightarrow> string \<Rightarrow> user list" where
  "members s rid = (case rooms s rid of None \<Rightarrow> [] | Some rm \<Rightarrow> users rm)"

text \<open>
  What reaping can do to the three presence tables: from \<open>s\<close> to \<open>s'\<close> every entry is
  either kept as it was or deleted.
\<close>

definition only_unbinds :: "manager \<Rightarrow> manager \<Rightarrow> bool" where
  "only_unbinds s s' =
     ((\<forall>k. user_sockets s' k = None \<or> user_sockets s' k = user_sockets s k)
      \<and> (\<forall>k. socket_users s' k = None \<or> socket_users s' k = socket_users s k)
      \<and> (\<forall>k. socket_rooms s' k = None \<or> socket_rooms s' k = socket_rooms s k))"

section \<open>Concrete scenarios\<close>

text \<open>
  A transport on which every send succeeds, and the states the examples start from:
  alice alone in room r1 on connection A (with B connected but not joined), alice and
  bob in r1 on A and B, and alice having joined on A and then again on B.
\<close>

definition reliable :: network where
  "reliable = (\<lambda>n c. True)"

definition alice_on_a :: manager where
  "alice_on_a = run reliable [Connect 1 ''A'', Connect 2 ''B'', Join ''A'' ''r1'' ''alice'']"

definition two_members :: manager where
  "two_members =
     run reliable [Connect 1 ''A'', Connect 2 ''B'', Join ''A'' ''r1'' ''alice'', Join ''B'' ''r1'' ''bob'']"

definition rebound :: manager where
  "rebound =
     run reliable [Connect 1 ''A'', Connect 2 ''B'', Join ''A'' ''r1'' ''alice'', Join ''B'' ''r1'' ''alice'']"

text \<open>
  A transport on which every send to connection A fails from the fifth attempt of the run
  on, and the state in which alice (on A) and carol (on C) are in r1 after four attempts,
  with B connected.
\<close>

definition a_breaks :: network where
  "a_breaks = (\<lambda>n c. if c = ''A'' then n < 4 else True)"

definition before_bob :: manager where
  "before_bob =
     run a_breaks [Connect 1 ''A'', Connect 3 ''C'', Connect 2 ''B'',
                   Join ''A'' ''r1'' ''alice'', Join ''C'' ''r1'' ''carol'']"

text \<open>
  A transport on which every send to connection B fails from the fifth attempt of the run
  on. Decoded frames: a chat message of alice, a join of bob, a signal of alice for carol
  (who is in no table) with an offer as data, the same with an empty object as data and
  with no data field, a file transfer request of alice for bob whose file_size is the
  JSON value \<^verbatim>\<open>true\<close>, and a well-formed request and response of alice for bob.
\<close>

definition chat_hi :: "(string \<times> json) list" where
  "chat_hi = [(''type'', JStr ''chat_message''), (''username'', JStr ''alice''), (''message'', JStr ''hi'')]"


definition signal_to_carol :: "(string \<times> json) list" where
  "signal_to_carol = [(''type'', JStr ''webrtc_signal''), (''sender'', JStr ''alice''),
                      (''target'', JStr ''carol''), (''data'', JObj [(''type'', JStr ''offer'')])]"

definition request_size_true :: "(string \<times> json) list" where
  "request_size_true = [(''type'', JStr ''file_transfer_request''), (''sender'', JStr ''alice''),
                        (''target'', JStr ''bob''), (''file_size'', JBool True)]"

definition signal_empty_data :: "(string \<times> json) list" where
  "signal_empty_data = [(''type'', JStr ''webrtc_signal''), (''sender'', JStr ''alice''),
                        (''target'', JStr ''carol''), (''data'', JObj [])]"

definition signal_without_data :: "(string \<times> json) list" where
  "signal_without_data = [(''type'', JStr ''webrtc_signal''), (''sender'', JStr ''alice''),
                          (''target'', JStr ''carol'')]"

definition b_breaks :: network where
  "b_breaks = (\<lambda>n c. if c = ''B'' then n < 4 else True)"

definition request_to_bob :: "(string \<times> json) list" where
  "request_to_bob = [(''type'', JStr ''file_transfer_request''), (''sender'', JStr ''alice''),
                     (''target'', JStr ''bob''), (''filename'', JStr ''a.txt''), (''file_size'', JInt 3)]"

definition response_to_bob :: "(string \<times> json) list" where
  "response_to_bob = [(''type'', JStr ''file_transfer_response''), (''sender'', JStr ''alice''),
                      (''target'', JStr ''bob''), (''accepted'', JBool True)]"

section \<open>Frame lemmas: what each operation leaves alone\<close>

lemma rooms_connect [simp]: "rooms (connect ws sid s) = rooms s"
  by (simp add: connect_def)

lemma rooms_disconnect [simp]: "rooms (disconnect c s) = rooms s"
  by (simp add: disconnect_def Let_def split: option.split)

lemma wire_disconnect [simp]: "wire (disconnect c s) = wire s"
  by (simp add: disconnect_def Let_def split: option.split)

lemma rooms_fold_disconnect [simp]: "rooms (fold disconnect cs s) = rooms s"
  by (induction cs arbitrary: s) simp_all

lemma wire_fold_disconnect [simp]: "wire (fold disconnect cs s) = wire s"
  by (induction cs arbitrary: s) simp_all

lemma dest_attempts_from [simp]: "map dest (attempts_from net n msg cs) = cs"
  by (induction cs arbitrary: n) simp_all

lemma length_attempts_from [simp]: "length (attempts_from net n msg cs) = length cs"
  by (induction cs arbitrary: n) simp_all

lemma payload_attempts_from: "a \<in> set (attempts_from net n msg cs) \<Longrightarrow> payload a = msg"
  by (induction cs arbitrary: n) auto

lemma recipients_wire [simp]: "recipients (s\<lparr>wire := w\<rparr>) ex us = recipients s ex us"
  by (simp add: recipients_def)

text \<open>The loop changes nothing but the wire, whatever the sends do: the tables are
  touched only after the whole pass.\<close>

lemma broadcast_loop_state:
  "fst (broadcast_loop net msg ex us (s, ds)) =
     s\<lparr>wire := wire s @ attempts_from net (length (wire s)) msg (recipients s ex us)\<rparr>"
proof (induction us arbitrary: s ds)
  case Nil
  show ?case by (simp add: recipients_def)
next
  case (Cons u us)
  show ?case
  proof (cases "Some (socket_id u) \<noteq> ex \<and> active_connections s (socket_id u) \<noteq> None")
    case False
    then show ?thesis using Cons.IH [of s] by (auto simp: recipients_def split: option.split)
  next
    case True
    let ?s' = "s\<lparr>wire := wire s @ [Attempt (socket_id u) msg (net (length (wire s)) (socket_id u))]\<rparr>"
    have r: "recipients s ex (u # us) = socket_id u # recipients ?s' ex us"
      using True by (simp add: recipients_def)
    show ?thesis
      using True Cons.IH [of ?s']
      by (auto simp: r send_text_def Let_def split: option.split bool.split prod.split)
  qed
qed

lemma rooms_broadcast_loop [simp]: "rooms (fst (broadcast_loop net msg ex us (s, ds))) = rooms s"
  by (simp add: broadcast_loop_state)

lemma rooms_broadcast_to_room [simp]: "rooms (broadcast_to_room net rid msg ex s) = rooms s"
  by (simp add: broadcast_to_room_def split: option.split prod.split)
   (metis fst_conv rooms_broadcast_loop)

lemma rooms_send_user_list [simp]: "rooms (send_user_list net rid s) = rooms s"
  by (simp add: send_user_list_def split: option.split)

lemma wire_broadcast_to_room:
  "wire (broadcast_to_room net rid msg ex s) =
     wire s @ attempts_from net (length (wire s)) msg (recipients s ex (members s rid))"
proof (cases "rooms s rid")
  case None
  then show ?thesis by (simp add: broadcast_to_room_def members_def recipients_def)
next
  case (Some rm)
  obtain s' ds where l: "broadcast_loop net msg ex (users rm) (s, []) = (s', ds)"
    by (cases "broadcast_loop net msg ex (users rm) (s, [])")
  have "s' = s\<lparr>wire := wire s @ attempts_from net (length (wire s)) msg (recipients s ex (users rm))\<rparr>"
    using broadcast_loop_state [of net msg ex "users rm" s "[]"] l by simp
  then show ?thesis using Some l by (simp add: broadcast_to_room_def members_def)
qed

lemma members_wire [simp]: "members (s\<lparr>wire := w\<rparr>) rid = members s rid"
  by (simp add: members_def)

lemma members_broadcast_to_room [simp]: "members (broadcast_to_room net rid msg ex s) r = members s r"
  by (simp add: members_def)

lemma dest_in_attempts_from: "a \<in> set (attempts_from net n msg cs) \<Longrightarrow> dest a \<in> set cs"
  by (induction cs arbitrary: n) auto

lemma wire_send_user_list:
  "wire (send_user_list net rid s) =
     wire s @ attempts_from net (length (wire s)) (online_users (members s rid))
                (recipients s None (members s rid))"
  by (simp add: send_user_list_def wire_broadcast_to_room members_def recipients_def
           split: option.split)

lemma wire_join_room:
  "wire (join_room net sid rid uname s) =
     wire s
     @ attempts_from net (length (wire s)) (user_joined uname)
         (recipients s (Some sid) (members (join_room_tables sid rid uname s) rid))
     @ attempts_from net
         (length (wire s) + length (recipients s (Some sid) (members (join_room_tables sid rid uname s) rid)))
         (online_users (members (join_room_tables sid rid uname s) rid))
         (recipients (broadcast_to_room net rid (user_joined uname) (Some sid) (join_room_tables sid rid uname s))
            None (members (join_room_tables sid rid uname s) rid))"
proof -
  have w: "wire (join_room_tables sid rid uname s) = wire s"
    by (simp add: join_room_tables_def Let_def)
  have r: "recipients (join_room_tables sid rid uname s) ex us = recipients s ex us" for ex us
    by (simp add: recipients_def join_room_tables_def Let_def)
  show ?thesis
    by (simp add: join_room_def wire_send_user_list wire_broadcast_to_room w r)
qed

text \<open>A broadcast on which no send fails and every recipient is registered reaps nobody.\<close>

lemma broadcast_loop_quiet:
  assumes "\<forall>n\<ge>length (wire s). \<forall>c. net n c"
    and "\<forall>u\<in>set us. Some (socket_id u) \<noteq> ex \<longrightarrow> active_connections s (socket_id u) \<noteq> None"
  shows "snd (broadcast_loop net msg ex us (s, ds)) = ds"
  using assms
proof (induction us arbitrary: s ds)
  case Nil
  show ?case by simp
next
  case (Cons u us)
  show ?case
  proof (cases "Some (socket_id u) \<noteq> ex")
    case False
    then show ?thesis using Cons.IH [of s ds] Cons.prems by simp
  next
    case True
    let ?s' = "s\<lparr>wire := wire s @ [Attempt (socket_id u) msg True]\<rparr>"
    have ok: "net (length (wire s)) (socket_id u)" using Cons.prems(1) by simp
    obtain ws where ws: "active_connections s (socket_id u) = Some ws"
      using Cons.prems(2) True by auto
    have "snd (broadcast_loop net msg ex us (?s', ds)) = ds"
      using Cons.prems by (intro Cons.IH) auto
    then show ?thesis using True ok ws by (simp add: send_text_def Let_def)
  qed
qed

lemma broadcast_to_room_quiet:
  assumes "\<forall>n\<ge>length (wire s). \<forall>c. net n c"
    and "\<forall>u\<in>set (members s rid). Some (socket_id u) \<noteq> ex \<longrightarrow> active_connections s (socket_id u) \<noteq> None"
  shows "broadcast_to_room net rid msg ex s =
           s\<lparr>wire := wire s @ attempts_from net (length (wire s)) msg (recipients s ex (members s rid))\<rparr>"
proof (cases "rooms s rid")
  case None
  then show ?thesis by (simp add: broadcast_to_room_def members_def recipients_def)
next
  case (Some rm)
  have "snd (broadcast_loop net msg ex (users rm) (s, [])) = []"
    using assms Some by (intro broadcast_loop_quiet) (auto simp: members_def)
  moreover have "fst (broadcast_loop net msg ex (users rm) (s, [])) =
      s\<lparr>wire := wire s @ attempts_from net (length (wire s)) msg (recipients s ex (users rm))\<rparr>"
    by (rule broadcast_loop_state)
  ultimately have "broadcast_loop net msg ex (users rm) (s, []) =
      (s\<lparr>wire := wire s @ attempts_from net (length (wire s)) msg (recipients s ex (users rm))\<rparr>, [])"
    by (simp add: prod_eq_iff)
  then show ?thesis using Some
    by (simp add: broadcast_to_room_def members_def)
qed

lemma join_room_quiet:
  assumes net: "\<forall>n\<ge>length (wire s). \<forall>c. net n c"
    and b: "active_connections s b \<noteq> None"
    and reg: "\<forall>m\<in>set (members s rid). active_connections s (socket_id m) \<noteq> None"
  shows "\<exists>w. join_room net b rid u s = (join_room_tables b rid u s)\<lparr>wire := w\<rparr>"
proof -
  let ?t = "join_room_tables b rid u s"
  have wt: "wire ?t = wire s" and at: "active_connections ?t = active_connections s"
    by (simp_all add: join_room_tables_def Let_def)
  have mt: "members ?t rid = filter (\<lambda>m. id' m \<noteq> b \<and> username m \<noteq> u) (members s rid)
              @ [\<lparr>id' = b, username = u, socket_id = b\<rparr>]"
    by (simp add: members_def join_room_tables_def Let_def split: option.split)
  have regt: "\<forall>m\<in>set (members ?t rid). active_connections ?t (socket_id m) \<noteq> None"
    using reg b by (auto simp: mt at)
  let ?msg = "user_joined u"
  let ?w1 = "wire ?t @ attempts_from net (length (wire ?t)) ?msg (recipients ?t (Some b) (members ?t rid))"
  have 1: "broadcast_to_room net rid ?msg (Some b) ?t = ?t\<lparr>wire := ?w1\<rparr>"
    using net regt by (intro broadcast_to_room_quiet) (auto simp: wt)
  let ?t1 = "?t\<lparr>wire := ?w1\<rparr>"
  have 2: "broadcast_to_room net rid msg None ?t1 =
             ?t1\<lparr>wire := wire ?t1 @ attempts_from net (length (wire ?t1)) msg
                                       (recipients ?t1 None (members ?t1 rid))\<rparr>" for msg
    using net regt by (intro broadcast_to_room_quiet) (auto simp: wt)
  have r: "rooms ?t1 rid \<noteq> None" by (simp add: join_room_tables_def Let_def)
  show ?thesis
    unfolding join_room_def 1
    using r by (auto simp: send_user_list_def 2 split: option.split)
qed

section \<open>The room directory under joins and leaves\<close>

lemma members_join_room:
  "members (join_room net sid rid uname s) rid =
     filter (\<lambda>u. id' u \<noteq> sid \<and> username u \<noteq> uname) (members s rid)
       @ [\<lparr>id' = sid, username = uname, socket_id = sid\<rparr>]"
  by (simp add: members_def join_room_def join_room_tables_def Let_def split: option.split)

lemma rooms_join_room_other:
  "rid' \<noteq> rid \<Longrightarrow> rooms (join_room net sid rid uname s) rid' = rooms s rid'"
  by (simp add: join_room_def join_room_tables_def Let_def)

lemma rooms_join_room_same: "rooms (join_room net sid rid uname s) rid \<noteq> None"
  by (simp add: join_room_def join_room_tables_def Let_def)

lemma rooms_leave_room:
  "rooms (leave_room net sid rid s) =
     (case rooms s rid of
        None \<Rightarrow> rooms s
      | Some rm \<Rightarrow>
          if filter (\<lambda>u. id' u \<noteq> sid) (users rm) = [] then (rooms s)(rid := None)
          else (rooms s)(rid \<mapsto> rm\<lparr>users := filter (\<lambda>u. id' u \<noteq> sid) (users rm)\<rparr>))"
  by (auto simp: leave_room_def Let_def split: option.split)

lemma length_get_room_users [simp]: "length (get_room_users s rid) = length (members s rid)"
  by (simp add: get_room_users_def members_def split: option.split)

lemma nonempty_apply_operation:
  assumes "\<And>r rm. rooms s r = Some rm \<Longrightarrow> users rm \<noteq> []"
    and "rooms (apply_operation net op s) r = Some rm"
  shows "users rm \<noteq> []"
proof (cases op)
  case (Connect ws sid)
  then show ?thesis using assms by simp
next
  case (Disconnect sid)
  then show ?thesis using assms by simp
next
  case (Join sid rid uname)
  show ?thesis
  proof (cases "r = rid")
    case True
    have "members (join_room net sid rid uname s) rid \<noteq> []"
      by (simp add: members_join_room)
    then show ?thesis using assms(2) Join True by (simp add: members_def)
  next
    case False
    then show ?thesis using assms Join by (simp add: rooms_join_room_other)
  qed
next
  case (Leave sid rid)
  then show ?thesis using assms
    by (auto simp: rooms_leave_room split: option.splits if_splits)
qed

lemma nonempty_fold:
  assumes "\<And>r rm. rooms s r = Some rm \<Longrightarrow> users rm \<noteq> []"
    and "rooms (fold (apply_operation net) ops s) r = Some rm"
  shows "users rm \<noteq> []"
  using assms
proof (induction ops arbitrary: s r rm)
  case Nil
  then show ?case by simp
next
  case (Cons op ops)
  show ?case
  proof (rule Cons.IH [of "apply_operation net op s" r rm])
    show "\<And>r rm. rooms (apply_operation net op s) r = Some rm \<Longrightarrow> users rm \<noteq> []"
      using nonempty_apply_operation [of s net op] Cons.prems(1) by blast
    show "rooms (fold (apply_operation net) ops (apply_operation net op s)) r = Some rm"
      using Cons.prems(2) by simp
  qed
qed

text \<open>
  C2. After any sequence of connects, disconnects, joins and leaves from the empty
  manager, under any behaviour of the transport, a room id is in the directory iff the
  room's member list has at least one member; and from any state in which a room is
  absent, a join of that room followed by the same connection's leave of it ends with
  the room absent again.
\<close>

theorem room_listed_iff_occupied:
  "(rid \<in> dom (rooms (run net ops))) = (1 \<le> length (get_room_users (run net ops) rid))
   \<and> (rid \<notin> dom (rooms s) \<longrightarrow>
        rid \<notin> dom (rooms (leave_room net sid rid (join_room net sid rid uname s))))"
proof
  show "(rid \<in> dom (rooms (run net ops))) = (1 \<le> length (get_room_users (run net ops) rid))"
  proof (cases "rooms (run net ops) rid")
    case None
    then show ?thesis by (simp add: members_def dom_def)
  next
    case (Some rm)
    have "users rm \<noteq> []"
      using nonempty_fold [of init net ops rid rm] Some by (simp add: run_def init_def)
    then show ?thesis using Some by (cases "users rm") (auto simp: members_def)
  qed
next
  show "rid \<notin> dom (rooms s) \<longrightarrow>
        rid \<notin> dom (rooms (leave_room net sid rid (join_room net sid rid uname s)))"
  proof
    assume "rid \<notin> dom (rooms s)"
    then have "members s rid = []" by (auto simp: members_def split: option.split)
    then have m: "members (join_room net sid rid uname s) rid
                    = [\<lparr>id' = sid, username = uname, socket_id = sid\<rparr>]"
      by (simp add: members_join_room)
    obtain rm where rm: "rooms (join_room net sid rid uname s) rid = Some rm"
      using rooms_join_room_same [of net sid rid uname s] by blast
    with m have "users rm = [\<lparr>id' = sid, username = uname, socket_id = sid\<rparr>]"
      by (simp add: members_def)
    then show "rid \<notin> dom (rooms (leave_room net sid rid (join_room net sid rid uname s)))"
      using rm by (simp add: rooms_leave_room)
  qed
qed

theorem room_listed_iff_occupied_witness:
  "''r1'' \<in> dom (rooms (run (\<lambda>n c. True) [Connect 1 ''A'', Join ''A'' ''r1'' ''alice'']))
   \<and> 1 \<le> length (get_room_users (run (\<lambda>n c. True) [Connect 1 ''A'', Join ''A'' ''r1'' ''alice'']) ''r1'')
   \<and> ''r1'' \<notin> dom (rooms init)
   \<and> ''r1'' \<notin> dom (rooms (leave_room (\<lambda>n c. True) ''A'' ''r1''
                               (join_room (\<lambda>n c. True) ''A'' ''r1'' ''alice'' init)))"
proof -
  have a: "''r1'' \<in> dom (rooms (run (\<lambda>n c. True) [Connect 1 ''A'', Join ''A'' ''r1'' ''alice'']))"
    using rooms_join_room_same [of "\<lambda>n c. True" "''A''" "''r1''" "''alice''" "connect 1 ''A'' init"]
    by (auto simp: run_def)
  have b: "''r1'' \<notin> dom (rooms init)" by (simp add: init_def)
  show ?thesis
    using a b room_listed_iff_occupied [of "''r1''" "\<lambda>n c. True"
        "[Connect 1 ''A'', Join ''A'' ''r1'' ''alice'']" init "''A''" "''alice''"]
    by blast
qed

text \<open>
  C5. After a join of a room under username \<open>uname\<close> by connection \<open>a\<close> and a second
  join of the same room under the same username by connection \<open>b\<close>, the room's member
  list holds exactly one record with that username, and it is \<open>b\<close>'s.
\<close>

theorem rejoin_keeps_one_record:
  "filter (\<lambda>u. username u = uname)
     (members (join_room net b rid uname (join_room net a rid uname s)) rid)
   = [\<lparr>id' = b, username = uname, socket_id = b\<rparr>]"
  by (simp add: members_join_room)

theorem rejoin_keeps_one_record_witness:
  "filter (\<lambda>u. username u = ''alice'')
     (members (join_room (\<lambda>n c. True) ''B'' ''r1'' ''alice''
                 (join_room (\<lambda>n c. True) ''A'' ''r1'' ''alice'' init)) ''r1'')
   = [\<lparr>id' = ''B'', username = ''alice'', socket_id = ''B''\<rparr>]"
  by (rule rejoin_keeps_one_record)

section \<open>Evaluating the scenarios\<close>

lemmas eval_defs = run_def init_def connect_def join_room_def join_room_tables_def Let_def
  broadcast_to_room_def send_user_list_def send_text_def disconnect_def members_def
  get_room_users_def

lemma alice_on_a_facts:
  "user_sockets alice_on_a = [''alice'' \<mapsto> ''A'']"
  "active_connections alice_on_a ''A'' = Some 1"
  "active_connections alice_on_a ''B'' = Some 2"
  "members alice_on_a ''r1'' = [\<lparr>id' = ''A'', username = ''alice'', socket_id = ''A''\<rparr>]"
  by (simp_all add: alice_on_a_def reliable_def eval_defs)

lemma two_members_facts:
  "active_connections two_members = [''A'' \<mapsto> 1, ''B'' \<mapsto> 2]"
  "user_sockets two_members = [''alice'' \<mapsto> ''A'', ''bob'' \<mapsto> ''B'']"
  "socket_users two_members = [''A'' \<mapsto> ''alice'', ''B'' \<mapsto> ''bob'']"
  "members two_members ''r1'' = [\<lparr>id' = ''A'', username = ''alice'', socket_id = ''A''\<rparr>,
                                  \<lparr>id' = ''B'', username = ''bob'', socket_id = ''B''\<rparr>]"
  "length (wire two_members) = 4"
  by (simp_all add: two_members_def reliable_def eval_defs)

lemma rebound_facts:
  "active_connections rebound = [''A'' \<mapsto> 1, ''B'' \<mapsto> 2]"
  "user_sockets rebound = [''alice'' \<mapsto> ''B'']"
  "socket_users rebound = [''A'' \<mapsto> ''alice'', ''B'' \<mapsto> ''alice'']"
  "members rebound ''r1'' = [\<lparr>id' = ''B'', username = ''alice'', socket_id = ''B''\<rparr>]"
  by (simp_all add: rebound_def reliable_def eval_defs)

section \<open>Broadcasts\<close>

text \<open>
  C1, evaluated. Alice (connection A) and carol (C) are in room r1 and A's transport has
  broken; bob joins on B. The member-joined notice fails on A and is still attempted, and
  delivered, on the next member C; A is then reaped from the registry and the username
  tables. But \<^verbatim>\<open>disconnect\<close> leaves the room's member list alone, so the snapshot that
  \<^verbatim>\<open>join_room\<close> broadcasts immediately afterwards, and the member list itself, still
  carry alice.
\<close>

theorem reaped_member_still_listed:
  "drop 4 (wire (join_room a_breaks ''B'' ''r1'' ''bob'' before_bob)) =
     [Attempt ''A'' (user_joined ''bob'') False,
      Attempt ''C'' (user_joined ''bob'') True,
      Attempt ''C'' (online_users [\<lparr>id' = ''A'', username = ''alice'', socket_id = ''A''\<rparr>,
                                   \<lparr>id' = ''C'', username = ''carol'', socket_id = ''C''\<rparr>,
                                   \<lparr>id' = ''B'', username = ''bob'', socket_id = ''B''\<rparr>]) True,
      Attempt ''B'' (online_users [\<lparr>id' = ''A'', username = ''alice'', socket_id = ''A''\<rparr>,
                                   \<lparr>id' = ''C'', username = ''carol'', socket_id = ''C''\<rparr>,
                                   \<lparr>id' = ''B'', username = ''bob'', socket_id = ''B''\<rparr>]) True]
   \<and> active_connections (join_room a_breaks ''B'' ''r1'' ''bob'' before_bob) ''A'' = None
   \<and> user_sockets (join_room a_breaks ''B'' ''r1'' ''bob'' before_bob) ''alice'' = None
   \<and> get_room_users (join_room a_breaks ''B'' ''r1'' ''bob'' before_bob) ''r1'' =
        [user_entry \<lparr>id' = ''A'', username = ''alice'', socket_id = ''A''\<rparr>,
         user_entry \<lparr>id' = ''C'', username = ''carol'', socket_id = ''C''\<rparr>,
         user_entry \<lparr>id' = ''B'', username = ''bob'', socket_id = ''B''\<rparr>]"
  by (simp add: before_bob_def a_breaks_def eval_defs)

text \<open>
  C6. The attempts a broadcast with an excluded connection adds to the wire never
  address that connection; in particular no member-joined notice of a join addresses
  the joiner. A chat-message event with a truthy username and message is attempted on
  every member of the room that has a registered handle, in member order, nobody
  excluded (so on the sender too, when it is such a member).
\<close>

theorem broadcast_exclusion:
  "x \<notin> set (map dest (drop (length (wire s)) (wire (broadcast_to_room net rid msg (Some x) s))))
   \<and> (\<forall>a \<in> set (drop (length (wire s)) (wire (join_room net sid rid uname s))).
         payload a = user_joined uname \<longrightarrow> dest a \<noteq> sid)
   \<and> (dict_get d ''type'' = JStr ''chat_message'' \<and> truthy (dict_get d ''username'')
        \<and> truthy (dict_get d ''message'') \<longrightarrow>
       map dest (drop (length (wire s)) (wire (snd (on_message net sid rid (JObj d) s))))
         = filter (\<lambda>c. c \<in> dom (active_connections s)) (map socket_id (members s rid)))"
proof (intro conjI)
  show "x \<notin> set (map dest (drop (length (wire s)) (wire (broadcast_to_room net rid msg (Some x) s))))"
    by (simp add: wire_broadcast_to_room recipients_def)
next
  show "\<forall>a \<in> set (drop (length (wire s)) (wire (join_room net sid rid uname s))).
         payload a = user_joined uname \<longrightarrow> dest a \<noteq> sid"
  proof (intro ballI impI)
    fix a
    assume a: "a \<in> set (drop (length (wire s)) (wire (join_room net sid rid uname s)))"
      and p: "payload a = user_joined uname"
    let ?M = "members (join_room_tables sid rid uname s) rid"
    let ?xs = "attempts_from net (length (wire s)) (user_joined uname) (recipients s (Some sid) ?M)"
    from a consider "a \<in> set ?xs"
      | "a \<in> set (attempts_from net (length (wire s) + length (recipients s (Some sid) ?M))
           (online_users ?M)
           (recipients (broadcast_to_room net rid (user_joined uname) (Some sid)
                          (join_room_tables sid rid uname s)) None ?M))"
      by (auto simp: wire_join_room)
    then show "dest a \<noteq> sid"
    proof cases
      case 1
      then have "dest a \<in> set (recipients s (Some sid) ?M)" by (rule dest_in_attempts_from)
      then show ?thesis by (simp add: recipients_def)
    next
      case 2
      then have "payload a = online_users ?M" by (rule payload_attempts_from)
      with p show ?thesis by (simp add: online_users_def user_joined_def)
    qed
  qed
next
  show "dict_get d ''type'' = JStr ''chat_message'' \<and> truthy (dict_get d ''username'')
        \<and> truthy (dict_get d ''message'') \<longrightarrow>
       map dest (drop (length (wire s)) (wire (snd (on_message net sid rid (JObj d) s))))
         = filter (\<lambda>c. c \<in> dom (active_connections s)) (map socket_id (members s rid))"
    by (auto simp: on_message_def handle_chat_message_def Let_def wire_broadcast_to_room
                   recipients_def dom_def)
qed

theorem broadcast_exclusion_witness:
  "''B'' \<notin> set (map dest (drop (length (wire two_members))
                     (wire (broadcast_to_room reliable ''r1'' (user_joined ''bob'') (Some ''B'') two_members))))
   \<and> Attempt ''A'' (user_joined ''bob'') True
        \<in> set (drop (length (wire alice_on_a)) (wire (join_room reliable ''B'' ''r1'' ''bob'' alice_on_a)))
   \<and> dest (Attempt ''A'' (user_joined ''bob'') True) \<noteq> ''B''
   \<and> map dest (drop (length (wire two_members))
                  (wire (snd (on_message reliable ''A'' ''r1'' (JObj chat_hi) two_members))))
       = [''A'', ''B'']"
proof -
  have m: "Attempt ''A'' (user_joined ''bob'') True
        \<in> set (drop (length (wire alice_on_a)) (wire (join_room reliable ''B'' ''r1'' ''bob'' alice_on_a)))"
    by (simp add: alice_on_a_def reliable_def eval_defs)
  have h: "dict_get chat_hi ''type'' = JStr ''chat_message'' \<and> truthy (dict_get chat_hi ''username'')
        \<and> truthy (dict_get chat_hi ''message'')"
    by (simp add: chat_hi_def dict_get_def dict_get_default_def)
  have f: "filter (\<lambda>c. c \<in> dom (active_connections two_members)) (map socket_id (members two_members ''r1''))
            = [''A'', ''B'']"
    by (simp add: two_members_facts)
  show ?thesis
    using m h f
      broadcast_exclusion [of "''B''" two_members reliable "''r1''" "user_joined ''bob''" "''A''" "''X''" chat_hi]
      broadcast_exclusion [of "''B''" alice_on_a reliable "''r1''" "user_joined ''bob''" "''B''" "''bob''" chat_hi]
    by simp
qed

section \<open>Identity binding\<close>

text \<open>
  C3. Let username \<open>u\<close> be bound to connection \<open>a\<close>, registered, and let \<open>a\<close> be the
  connection of no other username. When a different connection \<open>b\<close> joins as \<open>u\<close>, the
  tables that \<^verbatim>\<open>join_room\<close> has written before it notifies anybody resolve \<open>u\<close> to
  \<open>b\<close>, keep \<open>a\<close> registered and resolve no username to \<open>a\<close>. The same holds when
  \<^verbatim>\<open>join_room\<close> has returned, provided its two broadcasts reap nobody: \<open>b\<close> and the
  room's members are registered and no send of the join fails.
\<close>

theorem last_writer_wins:
  assumes "a \<noteq> b"
    and "user_sockets s u = Some a"
    and "active_connections s a \<noteq> None"
    and "\<forall>n. user_sockets s n = Some a \<longrightarrow> n = u"
  shows "(user_sockets (join_room_tables b rid u s) u = Some b
          \<and> active_connections (join_room_tables b rid u s) a \<noteq> None
          \<and> (\<forall>n. user_sockets (join_room_tables b rid u s) n \<noteq> Some a))
       \<and> (active_connections s b \<noteq> None
            \<and> (\<forall>m\<in>set (members s rid). active_connections s (socket_id m) \<noteq> None)
            \<and> (\<forall>n\<ge>length (wire s). \<forall>c. net n c) \<longrightarrow>
          user_sockets (join_room net b rid u s) u = Some b
          \<and> active_connections (join_room net b rid u s) a \<noteq> None
          \<and> (\<forall>n. user_sockets (join_room net b rid u s) n \<noteq> Some a))"
proof -
  have n: "user_sockets (join_room_tables b rid u s) n \<noteq> Some a" for n
    using assms(1,4) by (auto simp: join_room_tables_def Let_def split: option.split)
  have t: "user_sockets (join_room_tables b rid u s) u = Some b
          \<and> active_connections (join_room_tables b rid u s) a \<noteq> None"
    using assms(3) by (simp add: join_room_tables_def Let_def)
  show ?thesis
  proof (intro conjI impI)
    assume q: "active_connections s b \<noteq> None
            \<and> (\<forall>m\<in>set (members s rid). active_connections s (socket_id m) \<noteq> None)
            \<and> (\<forall>n\<ge>length (wire s). \<forall>c. net n c)"
    then obtain w where j: "join_room net b rid u s = (join_room_tables b rid u s)\<lparr>wire := w\<rparr>"
      using join_room_quiet [of s net b rid u] by blast
    show "user_sockets (join_room net b rid u s) u = Some b" using t by (simp add: j)
    show "active_connections (join_room net b rid u s) a \<noteq> None" using t by (simp add: j)
    show "\<forall>n. user_sockets (join_room net b rid u s) n \<noteq> Some a" using n by (simp add: j)
  qed (use n t in auto)
qed

theorem last_writer_wins_witness:
  "user_sockets alice_on_a ''alice'' = Some ''A''
   \<and> user_sockets (join_room_tables ''B'' ''r1'' ''alice'' alice_on_a) ''alice'' = Some ''B''
   \<and> user_sockets (join_room reliable ''B'' ''r1'' ''alice'' alice_on_a) ''alice'' = Some ''B''
   \<and> active_connections (join_room reliable ''B'' ''r1'' ''alice'' alice_on_a) ''A'' \<noteq> None
   \<and> (\<forall>n. user_sockets (join_room reliable ''B'' ''r1'' ''alice'' alice_on_a) n \<noteq> Some ''A'')"
proof -
  have 1: "''A'' \<noteq> ''B''" by simp
  have 2: "user_sockets alice_on_a ''alice'' = Some ''A''" by (simp add: alice_on_a_facts)
  have 3: "active_connections alice_on_a ''A'' \<noteq> None" by (simp add: alice_on_a_facts)
  have 4: "\<forall>n. user_sockets alice_on_a n = Some ''A'' \<longrightarrow> n = ''alice''"
    by (simp add: alice_on_a_facts)
  have 5: "active_connections alice_on_a ''B'' \<noteq> None" by (simp add: alice_on_a_facts)
  have 6: "\<forall>m\<in>set (members alice_on_a ''r1''). active_connections alice_on_a (socket_id m) \<noteq> None"
    by (simp add: alice_on_a_facts)
  have 7: "\<forall>n\<ge>length (wire alice_on_a). \<forall>c. reliable n c" by (simp add: reliable_def)
  show ?thesis
    using 2 5 6 7 last_writer_wins [OF 1 2 3 4, where rid = "''r1''" and net = reliable] by blast
qed

text \<open>
  C10. Let connection \<open>a\<close> still carry username \<open>u\<close> in the connection-to-username
  table while \<open>u\<close> resolves to a different connection \<open>b\<close> (the state after \<open>u\<close> was
  rebound from \<open>a\<close> to \<open>b\<close>). Then \<^verbatim>\<open>disconnect\<close> of \<open>a\<close> deletes the entry of \<open>u\<close>,
  while \<open>b\<close>'s registration, \<open>b\<close>'s own username entry and every room's member list are
  as before.
\<close>

theorem reaping_superseded_unbinds:
  assumes "a \<noteq> b" and "socket_users s a = Some u" and "u \<noteq> []" and "user_sockets s u = Some b"
  shows "user_sockets (disconnect a s) u = None
         \<and> active_connections (disconnect a s) b = active_connections s b
         \<and> socket_users (disconnect a s) b = socket_users s b
         \<and> rooms (disconnect a s) = rooms s"
  using assms by (simp add: disconnect_def Let_def)

theorem reaping_superseded_unbinds_witness:
  "socket_users rebound ''A'' = Some ''alice''
   \<and> user_sockets rebound ''alice'' = Some ''B''
   \<and> user_sockets (disconnect ''A'' rebound) ''alice'' = None
   \<and> active_connections (disconnect ''A'' rebound) ''B'' = Some 2
   \<and> socket_users (disconnect ''A'' rebound) ''B'' = Some ''alice''
   \<and> members (disconnect ''A'' rebound) ''r1'' = [\<lparr>id' = ''B'', username = ''alice'', socket_id = ''B''\<rparr>]"
proof -
  have 1: "''A'' \<noteq> ''B''" by simp
  have 2: "socket_users rebound ''A'' = Some ''alice''" by (simp add: rebound_facts)
  have 3: "''alice'' \<noteq> []" by simp
  have 4: "user_sockets rebound ''alice'' = Some ''B''" by (simp add: rebound_facts)
  have 5: "members (disconnect ''A'' rebound) ''r1'' = members rebound ''r1''"
    using reaping_superseded_unbinds [OF 1 2 3 4] by (simp add: members_def)
  show ?thesis
    using 2 4 5 reaping_superseded_unbinds [OF 1 2 3 4] by (simp add: rebound_facts)
qed

section \<open>Who is reaped by a broadcast\<close>








section \<open>The endpoint's events\<close>

lemma wire_leave_room: "\<exists>rest. wire (leave_room net sid rid s) = wire s @ rest"
  by (auto simp: leave_room_def Let_def wire_send_user_list wire_broadcast_to_room split: option.split)

lemma wire_on_exception: "\<exists>rest. wire (snd (on_exception net sid rid s)) = wire s @ rest"
  using wire_leave_room [of net sid rid s] by (simp add: on_exception_def)

lemma reply_delivered:
  "net (length (wire s)) sid \<Longrightarrow>
     reply net sid rid msg s = (Continue, s\<lparr>wire := wire s @ [Attempt sid msg True]\<rparr>)"
  by (simp add: reply_def send_text_def Let_def)

lemma wire_reply:
  "\<exists>rest. wire (snd (reply net sid rid msg s)) = wire s @ Attempt sid msg (net (length (wire s)) sid) # rest
          \<and> (net (length (wire s)) sid \<longrightarrow> rest = [])"
proof (cases "net (length (wire s)) sid")
  case True
  then show ?thesis by (simp add: reply_delivered)
next
  case False
  obtain rest where "wire (snd (on_exception net sid rid (s\<lparr>wire := wire s @ [Attempt sid msg False]\<rparr>)))
      = wire (s\<lparr>wire := wire s @ [Attempt sid msg False]\<rparr>) @ rest"
    using wire_on_exception by blast
  then show ?thesis using False by (simp add: reply_def send_text_def Let_def)
qed



lemma only_unbinds_refl [simp]: "only_unbinds s s"
  by (simp add: only_unbinds_def)


lemma only_unbinds_wire [simp]: "only_unbinds s (s'\<lparr>wire := w\<rparr>) = only_unbinds s s'"
  by (simp add: only_unbinds_def)

lemma only_unbinds_rooms [simp]: "only_unbinds s (s'\<lparr>rooms := r\<rparr>) = only_unbinds s s'"
  by (simp add: only_unbinds_def)













lemmas handler_defs = on_message_def handle_join_room_def handle_chat_message_def
  handle_webrtc_signal_def handle_file_transfer_request_def handle_file_transfer_response_def
  reply_def on_exception_def send_to_user_def send_personal_message_def leave_room_def
  dict_get_def dict_get_default_def



lemma send_to_user_unbound: "user_sockets s t = None \<Longrightarrow> send_to_user net t msg s = (False, s)"
  by (simp add: send_to_user_def)

text \<open>
  C7, as amended. For a webrtc_signal event with a truthy sender and a non-empty string
  target that has no entry in the username table, \<^verbatim>\<open>send_to_user\<close> returns \<open>False\<close> and
  leaves the manager as it was. When the data field is a non-empty object, the handler's
  next and first attempt is the error notice naming the target, on the sender's own
  handle; when that send succeeds nothing else changes; and the pass raises (into the
  endpoint's own \<^verbatim>\<open>except\<close> clause) exactly when the send of that notice fails. When the
  data field is an empty object the event is dropped: nothing is sent and nothing
  changes.
\<close>

theorem undeliverable_signal_reported:
  assumes "dict_get d ''type'' = JStr ''webrtc_signal''"
    and "truthy (dict_get d ''sender'')"
    and "dict_get d ''target'' = JStr t" and "t \<noteq> []"
    and "user_sockets s t = None"
  shows "send_to_user net t (webrtc_signal (dict_get d ''sender'') (dict_get d ''data'')) s = (False, s)
       \<and> (dict_get d ''data'' = JObj payload_fields \<and> payload_fields \<noteq> [] \<longrightarrow>
            (\<exists>rest. wire (snd (on_message net sid rid (JObj d) s))
                    = wire s @ Attempt sid (error_notice (''Failed to deliver WebRTC signal to '' @ t))
                                 (net (length (wire s)) sid) # rest)
          \<and> (net (length (wire s)) sid \<longrightarrow>
                on_message net sid rid (JObj d) s
                  = (Continue, s\<lparr>wire := wire s @ [Attempt sid (error_notice (''Failed to deliver WebRTC signal to '' @ t)) True]\<rparr>))
          \<and> (fst (on_message net sid rid (JObj d) s) = Continue) = net (length (wire s)) sid)
       \<and> (dict_get d ''data'' = JObj [] \<longrightarrow> on_message net sid rid (JObj d) s = (Continue, s))"
proof -
  let ?e = "error_notice (''Failed to deliver WebRTC signal to '' @ t)"
  have u: "send_to_user net t (webrtc_signal (dict_get d ''sender'') (dict_get d ''data'')) s = (False, s)"
    using assms(5) by (rule send_to_user_unbound)
  have e: "on_message net sid rid (JObj d) s = (Continue, s)" if "dict_get d ''data'' = JObj []"
    using assms(1) that by (simp add: on_message_def handle_webrtc_signal_def Let_def)
  have "(\<exists>rest. wire (snd (on_message net sid rid (JObj d) s))
                    = wire s @ Attempt sid ?e (net (length (wire s)) sid) # rest)
          \<and> (net (length (wire s)) sid \<longrightarrow>
                on_message net sid rid (JObj d) s = (Continue, s\<lparr>wire := wire s @ [Attempt sid ?e True]\<rparr>))
          \<and> (fst (on_message net sid rid (JObj d) s) = Continue) = net (length (wire s)) sid"
    if f: "dict_get d ''data'' = JObj payload_fields" "payload_fields \<noteq> []"
  proof -
    have h: "on_message net sid rid (JObj d) s = reply net sid rid ?e s"
      using assms(1-4) f u by (simp add: on_message_def handle_webrtc_signal_def Let_def)
    have o: "(fst (reply net sid rid ?e s) = Continue) = net (length (wire s)) sid"
      by (cases "net (length (wire s)) sid")
        (simp_all add: reply_def send_text_def on_exception_def Let_def)
    show ?thesis
      using wire_reply [of net sid rid ?e s] reply_delivered [of net s sid rid ?e] o
      unfolding h by blast
  qed
  then show ?thesis using u e by blast
qed

theorem undeliverable_signal_reported_witness:
  "user_sockets two_members ''carol'' = None
   \<and> send_to_user reliable ''carol''
        (webrtc_signal (dict_get signal_to_carol ''sender'') (dict_get signal_to_carol ''data'')) two_members
       = (False, two_members)
   \<and> on_message reliable ''A'' ''r1'' (JObj signal_to_carol) two_members
       = (Continue, two_members\<lparr>wire := wire two_members
            @ [Attempt ''A'' (error_notice ''Failed to deliver WebRTC signal to carol'') True]\<rparr>)
   \<and> fst (on_message reliable ''A'' ''r1'' (JObj signal_to_carol) two_members) = Continue
   \<and> dict_get signal_empty_data ''data'' = JObj []
   \<and> on_message reliable ''A'' ''r1'' (JObj signal_empty_data) two_members = (Continue, two_members)"
proof -
  have 1: "dict_get signal_to_carol ''type'' = JStr ''webrtc_signal''"
    and 2: "truthy (dict_get signal_to_carol ''sender'')"
    and 3: "dict_get signal_to_carol ''target'' = JStr ''carol''"
    and 5: "dict_get signal_to_carol ''data'' = JObj [(''type'', JStr ''offer'')]"
    by (simp_all add: signal_to_carol_def dict_get_def dict_get_default_def)
  have 4: "''carol'' \<noteq> []" and 6: "[(''type'', JStr ''offer'')] \<noteq> []" by simp_all
  have 7: "user_sockets two_members ''carol'' = None" by (simp add: two_members_facts)
  have 8: "reliable (length (wire two_members)) ''A''" by (simp add: reliable_def)
  have e1: "dict_get signal_empty_data ''type'' = JStr ''webrtc_signal''"
    and e2: "truthy (dict_get signal_empty_data ''sender'')"
    and e3: "dict_get signal_empty_data ''target'' = JStr ''carol''"
    and e5: "dict_get signal_empty_data ''data'' = JObj []"
    by (simp_all add: signal_empty_data_def dict_get_def dict_get_default_def)
  show ?thesis
    using 5 6 7 8 e5
      undeliverable_signal_reported [OF 1 2 3 4 7, of reliable "[(''type'', JStr ''offer'')]" "''A''" "''r1''"]
      undeliverable_signal_reported [OF e1 e2 e3 4 7, of reliable "[]" "''A''" "''r1''"]
    by simp
qed

text \<open>
  C7 as stated promises the sender an error notice for every signal whose target is
  unbound. Alice's signal for carol with \<^verbatim>\<open>data: {}\<close> fails the truthiness test of the
  branch and gets none.
\<close>

theorem empty_signal_gets_no_notice:
  "user_sockets two_members ''carol'' = None
   \<and> on_message reliable ''A'' ''r1'' (JObj signal_empty_data) two_members = (Continue, two_members)"
  by (simp add: two_members_facts signal_empty_data_def handler_defs)

text \<open>With no data field at all, the log line of the branch raises before the fields
  are tested and the sender's connection is closed.\<close>

lemma signal_without_data_closes:
  "fst (on_message reliable ''A'' ''r1'' (JObj signal_without_data) two_members) = Closed"
  by (simp add: signal_without_data_def handler_defs)

lemma checked_file_size_cases:
  "0 \<le> n \<Longrightarrow> checked_file_size (JInt n) = JInt n"
  "n < 0 \<Longrightarrow> checked_file_size (JInt n) = JInt 0"
  "0 \<le> r \<Longrightarrow> checked_file_size (JFloat (Finite r)) = JFloat (Finite r)"
  "r < 0 \<Longrightarrow> checked_file_size (JFloat (Finite r)) = JInt 0"
  "checked_file_size JNull = JInt 0"
  "checked_file_size (JStr x) = JInt 0"
  "checked_file_size (JArr xs) = JInt 0"
  "checked_file_size (JObj kvs) = JInt 0"
  "checked_file_size (JBool b) = JBool b"
  "checked_file_size (JFloat NaN) = JFloat NaN"
  "checked_file_size (JFloat PosInf) = JFloat PosInf"
  "checked_file_size (JFloat NegInf) = JInt 0"
  by simp_all

lemma file_request_relayed:
  assumes "dict_get d ''type'' = JStr ''file_transfer_request''"
    and "truthy (dict_get d ''sender'')"
    and "dict_get d ''target'' = JStr t" and "t \<noteq> []"
  shows "on_message net sid rid (JObj d) s =
          (case send_to_user net t
                  (file_transfer_request (dict_get d ''sender'')
                     (if truthy (dict_get d ''filename'') then dict_get d ''filename'' else JStr ''Unknown file'')
                     (checked_file_size (dict_get d ''file_size''))
                     (dict_get_default d ''file_type'' (JStr ''application/octet-stream''))) s of
             (True, s') \<Rightarrow> (Continue, s')
           | (False, s') \<Rightarrow> reply net sid rid (error_notice (''User '' @ t @ '' is not available'')) s')"
  using assms by (simp add: on_message_def handle_file_transfer_request_def Let_def)

text \<open>
  C8, evaluated. With alice and bob in r1, alice's file_transfer_request for bob whose
  file_size is the JSON value \<^verbatim>\<open>true\<close> is forwarded to bob with file_size \<^verbatim>\<open>true\<close>, not 0
  (the missing filename and file_type get their defaults). Lemma
  \<open>checked_file_size_cases\<close> lists what the test does on every kind of value, and lemma
  \<open>file_request_relayed\<close> that the event is relayed whatever the size field holds.
\<close>

theorem boolean_file_size_forwarded:
  "drop (length (wire two_members))
     (wire (snd (on_message reliable ''A'' ''r1'' (JObj request_size_true) two_members)))
   = [Attempt ''B'' (file_transfer_request (JStr ''alice'') (JStr ''Unknown file'') (JBool True)
                       (JStr ''application/octet-stream'')) True]"
  by (simp add: two_members_def reliable_def request_size_true_def handler_defs eval_defs)


lemma wire_send_to_user:
  "\<exists>as. wire (snd (send_to_user net t msg s)) = wire s @ as \<and> (\<forall>a\<in>set as. payload a = msg)"
proof (cases "\<exists>c. user_sockets s t = Some c \<and> c \<noteq> [] \<and> active_connections s c \<noteq> None")
  case False
  then have "snd (send_to_user net t msg s) = s"
    by (auto simp: send_to_user_def send_personal_message_def split: option.split)
  then show ?thesis by simp
next
  case True
  then obtain c ws where c: "user_sockets s t = Some c" "c \<noteq> []" "active_connections s c = Some ws"
    by auto
  have "wire (snd (send_to_user net t msg s)) = wire s @ [Attempt c msg (net (length (wire s)) c)]"
    using c by (cases "net (length (wire s)) c")
      (simp_all add: send_to_user_def send_personal_message_def send_text_def Let_def)
  then show ?thesis by simp
qed

lemma send_to_user_bound:
  assumes "user_sockets s t = Some c" and "c \<noteq> []" and "active_connections s c \<noteq> None"
  shows "send_to_user net t msg s =
           (net (length (wire s)) c,
            if net (length (wire s)) c then s\<lparr>wire := wire s @ [Attempt c msg True]\<rparr>
            else disconnect c (s\<lparr>wire := wire s @ [Attempt c msg False]\<rparr>))"
  using assms
  by (cases "net (length (wire s)) c")
     (auto simp: send_to_user_def send_personal_message_def send_text_def Let_def)

text \<open>
  C9. A file_transfer_response event \<open>d\<close> and a file_transfer_request event \<open>q\<close>, both
  with a truthy sender and the same non-empty string target, are relayed by the same
  \<^verbatim>\<open>send_to_user\<close> call on their own envelope: when the target is bound to a registered
  connection \<open>c\<close>, the first attempt of either pass is the envelope on \<open>c\<close>. For the
  response that attempt is the whole pass, delivered or not: the loop continues and no
  attempt of the pass carries anything but the response envelope, so no error notice is
  sent (nor is any sent when the target is unbound). For the request a delivered
  envelope is likewise the whole pass, but after a failed delivery the next attempt is
  the error notice \<^verbatim>\<open>User <target> is not available\<close> on the sender's own handle.
\<close>

theorem response_failure_is_silent:
  assumes "dict_get d ''type'' = JStr ''file_transfer_response''"
    and "truthy (dict_get d ''sender'')"
    and "dict_get d ''target'' = JStr t" and "t \<noteq> []"
    and "dict_get q ''type'' = JStr ''file_transfer_request''"
    and "truthy (dict_get q ''sender'')"
    and "dict_get q ''target'' = JStr t"
  shows "on_message net sid rid (JObj d) s
           = (Continue, snd (send_to_user net t
                (file_transfer_response (dict_get d ''sender'') (dict_get d ''accepted'')
                   (dict_get_default d ''filename'' (JStr ''Unknown file''))) s))
       \<and> (\<forall>a\<in>set (drop (length (wire s)) (wire (snd (on_message net sid rid (JObj d) s)))).
             payload a = file_transfer_response (dict_get d ''sender'') (dict_get d ''accepted'')
                           (dict_get_default d ''filename'' (JStr ''Unknown file'')))
       \<and> (fst (send_to_user net t
                  (file_transfer_request (dict_get q ''sender'')
                     (if truthy (dict_get q ''filename'') then dict_get q ''filename'' else JStr ''Unknown file'')
                     (checked_file_size (dict_get q ''file_size''))
                     (dict_get_default q ''file_type'' (JStr ''application/octet-stream''))) s) \<longrightarrow>
           on_message net sid rid (JObj q) s
             = (Continue, snd (send_to_user net t
                  (file_transfer_request (dict_get q ''sender'')
                     (if truthy (dict_get q ''filename'') then dict_get q ''filename'' else JStr ''Unknown file'')
                     (checked_file_size (dict_get q ''file_size''))
                     (dict_get_default q ''file_type'' (JStr ''application/octet-stream''))) s)))
       \<and> (\<not> fst (send_to_user net t
                  (file_transfer_request (dict_get q ''sender'')
                     (if truthy (dict_get q ''filename'') then dict_get q ''filename'' else JStr ''Unknown file'')
                     (checked_file_size (dict_get q ''file_size''))
                     (dict_get_default q ''file_type'' (JStr ''application/octet-stream''))) s) \<longrightarrow>
           (\<exists>rest. wire (snd (on_message net sid rid (JObj q) s))
              = wire (snd (send_to_user net t
                  (file_transfer_request (dict_get q ''sender'')
                     (if truthy (dict_get q ''filename'') then dict_get q ''filename'' else JStr ''Unknown file'')
                     (checked_file_size (dict_get q ''file_size''))
                     (dict_get_default q ''file_type'' (JStr ''application/octet-stream''))) s))
                @ Attempt sid (error_notice (''User '' @ t @ '' is not available''))
                    (net (length (wire (snd (send_to_user net t
                  (file_transfer_request (dict_get q ''sender'')
                     (if truthy (dict_get q ''filename'') then dict_get q ''filename'' else JStr ''Unknown file'')
                     (checked_file_size (dict_get q ''file_size''))
                     (dict_get_default q ''file_type'' (JStr ''application/octet-stream''))) s)))) sid) # rest))
       \<and> (user_sockets s t = Some c \<and> c \<noteq> [] \<and> active_connections s c \<noteq> None \<longrightarrow>
             wire (snd (on_message net sid rid (JObj d) s))
               = wire s @ [Attempt c (file_transfer_response (dict_get d ''sender'') (dict_get d ''accepted'')
                                        (dict_get_default d ''filename'' (JStr ''Unknown file'')))
                             (net (length (wire s)) c)]
           \<and> (\<exists>rest. wire (snd (on_message net sid rid (JObj q) s))
                 = wire s @ Attempt c
                     (file_transfer_request (dict_get q ''sender'')
                        (if truthy (dict_get q ''filename'') then dict_get q ''filename'' else JStr ''Unknown file'')
                        (checked_file_size (dict_get q ''file_size''))
                        (dict_get_default q ''file_type'' (JStr ''application/octet-stream'')))
                     (net (length (wire s)) c) # rest
               \<and> (net (length (wire s)) c \<longrightarrow> rest = [])
               \<and> (\<not> net (length (wire s)) c \<longrightarrow>
                    (\<exists>rest'. rest = Attempt sid (error_notice (''User '' @ t @ '' is not available''))
                                       (net (Suc (length (wire s))) sid) # rest'))))"
proof -
  let ?resp = "file_transfer_response (dict_get d ''sender'') (dict_get d ''accepted'')
                 (dict_get_default d ''filename'' (JStr ''Unknown file''))"
  let ?req = "file_transfer_request (dict_get q ''sender'')
                (if truthy (dict_get q ''filename'') then dict_get q ''filename'' else JStr ''Unknown file'')
                (checked_file_size (dict_get q ''file_size''))
                (dict_get_default q ''file_type'' (JStr ''application/octet-stream''))"
  let ?err = "error_notice (''User '' @ t @ '' is not available'')"
  let ?n = "length (wire s)"
  have r: "on_message net sid rid (JObj d) s = (Continue, snd (send_to_user net t ?resp s))"
    using assms(1-4) by (simp add: on_message_def handle_file_transfer_response_def Let_def split: prod.split)
  obtain as where as: "wire (snd (send_to_user net t ?resp s)) = wire s @ as"
      "\<forall>a\<in>set as. payload a = ?resp"
    using wire_send_to_user [of net t ?resp s] by blast
  have p: "\<forall>a\<in>set (drop (length (wire s)) (wire (snd (on_message net sid rid (JObj d) s)))). payload a = ?resp"
    using as by (simp add: r)
  obtain ok s' where st: "send_to_user net t ?req s = (ok, s')"
    by (cases "send_to_user net t ?req s")
  have q: "on_message net sid rid (JObj q) s =
             (if ok then (Continue, s') else reply net sid rid ?err s')"
    using file_request_relayed [OF assms(5-7) assms(4), of net sid rid s] st by (cases ok) simp_all
  have f: "\<not> ok \<longrightarrow> (\<exists>rest. wire (snd (on_message net sid rid (JObj q) s))
              = wire s' @ Attempt sid ?err (net (length (wire s')) sid) # rest)"
    using wire_reply [of net sid rid ?err s'] by (auto simp: q)
  have b: "wire (snd (on_message net sid rid (JObj d) s)) = wire s @ [Attempt c ?resp (net ?n c)]
           \<and> (\<exists>rest. wire (snd (on_message net sid rid (JObj q) s)) = wire s @ Attempt c ?req (net ?n c) # rest
               \<and> (net ?n c \<longrightarrow> rest = [])
               \<and> (\<not> net ?n c \<longrightarrow> (\<exists>rest'. rest = Attempt sid ?err (net (Suc ?n) sid) # rest')))"
    if c: "user_sockets s t = Some c \<and> c \<noteq> [] \<and> active_connections s c \<noteq> None"
  proof
    have sr: "wire (snd (send_to_user net t msg s)) = wire s @ [Attempt c msg (net ?n c)]" for msg
      using c by (simp add: send_to_user_bound)
    show "wire (snd (on_message net sid rid (JObj d) s)) = wire s @ [Attempt c ?resp (net ?n c)]"
      by (simp add: r sr)
    have c1: "user_sockets s t = Some c" and c2: "c \<noteq> []" and c3: "active_connections s c \<noteq> None"
      using c by blast+
    have "fst (send_to_user net t ?req s) = net ?n c"
      by (simp only: send_to_user_bound [OF c1 c2 c3] fst_conv)
    then have ok: "ok = net ?n c" by (simp only: st fst_conv)
    have "wire (snd (send_to_user net t ?req s)) = wire s @ [Attempt c ?req (net ?n c)]"
      by (rule sr)
    then have w': "wire s' = wire s @ [Attempt c ?req (net ?n c)]" by (simp only: st snd_conv)
    show "\<exists>rest. wire (snd (on_message net sid rid (JObj q) s)) = wire s @ Attempt c ?req (net ?n c) # rest
               \<and> (net ?n c \<longrightarrow> rest = [])
               \<and> (\<not> net ?n c \<longrightarrow> (\<exists>rest'. rest = Attempt sid ?err (net (Suc ?n) sid) # rest'))"
    proof (cases "net ?n c")
      case True
      then show ?thesis using ok w' by (simp add: q)
    next
      case False
      then obtain rest' where "wire (snd (on_message net sid rid (JObj q) s))
              = wire s' @ Attempt sid ?err (net (length (wire s')) sid) # rest'"
        using f ok by blast
      then show ?thesis using False by (simp add: w')
    qed
  qed
  show ?thesis
    using r p q f b by (simp add: st)
qed

theorem response_failure_is_silent_witness:
  "user_sockets two_members ''bob'' = Some ''B''
   \<and> active_connections two_members ''B'' = Some 2
   \<and> b_breaks (length (wire two_members)) ''B'' = False
   \<and> wire (snd (on_message b_breaks ''A'' ''r1'' (JObj response_to_bob) two_members))
        = wire two_members
          @ [Attempt ''B'' (file_transfer_response (JStr ''alice'') (JBool True) (JStr ''Unknown file'')) False]
   \<and> fst (on_message b_breaks ''A'' ''r1'' (JObj response_to_bob) two_members) = Continue
   \<and> (\<exists>rest. wire (snd (on_message b_breaks ''A'' ''r1'' (JObj request_to_bob) two_members))
        = wire two_members
          @ Attempt ''B'' (file_transfer_request (JStr ''alice'') (JStr ''a.txt'') (JInt 3)
                             (JStr ''application/octet-stream'')) False
          # Attempt ''A'' (error_notice ''User bob is not available'') True # rest)"
proof -
  have 1: "dict_get response_to_bob ''type'' = JStr ''file_transfer_response''"
    and 2: "truthy (dict_get response_to_bob ''sender'')"
    and 3: "dict_get response_to_bob ''target'' = JStr ''bob''"
    by (simp_all add: response_to_bob_def dict_get_def dict_get_default_def)
  have 4: "''bob'' \<noteq> []" by simp
  have 5: "dict_get request_to_bob ''type'' = JStr ''file_transfer_request''"
    and 6: "truthy (dict_get request_to_bob ''sender'')"
    and 7: "dict_get request_to_bob ''target'' = JStr ''bob''"
    by (simp_all add: request_to_bob_def dict_get_def dict_get_default_def)
  have v: "dict_get response_to_bob ''sender'' = JStr ''alice''"
    "dict_get response_to_bob ''accepted'' = JBool True"
    "dict_get_default response_to_bob ''filename'' (JStr ''Unknown file'') = JStr ''Unknown file''"
    "dict_get request_to_bob ''sender'' = JStr ''alice''"
    "dict_get request_to_bob ''filename'' = JStr ''a.txt''"
    "dict_get request_to_bob ''file_size'' = JInt 3"
    "dict_get_default request_to_bob ''file_type'' (JStr ''application/octet-stream'')
       = JStr ''application/octet-stream''"
    by (simp_all add: response_to_bob_def request_to_bob_def dict_get_def dict_get_default_def)
  have b: "user_sockets two_members ''bob'' = Some ''B''" "active_connections two_members ''B'' = Some 2"
    by (simp_all add: two_members_facts)
  have n: "b_breaks (length (wire two_members)) ''B'' = False"
    "b_breaks (Suc (length (wire two_members))) ''A'' = True"
    by (simp_all add: two_members_facts b_breaks_def)
  have c: "user_sockets two_members ''bob'' = Some ''B'' \<and> ''B'' \<noteq> []
             \<and> active_connections two_members ''B'' \<noteq> None"
    by (simp add: b)
  note th = response_failure_is_silent [OF 1 2 3 4 5 6 7, of b_breaks "''A''" "''r1''" two_members "''B''"]
  have r1: "on_message b_breaks ''A'' ''r1'' (JObj response_to_bob) two_members
              = (Continue, snd (send_to_user b_breaks ''bob''
                   (file_transfer_response (dict_get response_to_bob ''sender'')
                      (dict_get response_to_bob ''accepted'')
                      (dict_get_default response_to_bob ''filename'' (JStr ''Unknown file''))) two_members))"
    using th by blast
  have r2: "wire (snd (on_message b_breaks ''A'' ''r1'' (JObj response_to_bob) two_members))
               = wire two_members @ [Attempt ''B'' (file_transfer_response (dict_get response_to_bob ''sender'')
                      (dict_get response_to_bob ''accepted'')
                      (dict_get_default response_to_bob ''filename'' (JStr ''Unknown file'')))
                             (b_breaks (length (wire two_members)) ''B'')]"
    using th c by blast
  obtain rest rest' where
    r3: "wire (snd (on_message b_breaks ''A'' ''r1'' (JObj request_to_bob) two_members))
                 = wire two_members @ Attempt ''B''
                     (file_transfer_request (dict_get request_to_bob ''sender'')
                        (if truthy (dict_get request_to_bob ''filename'') then dict_get request_to_bob ''filename''
                         else JStr ''Unknown file'')
                        (checked_file_size (dict_get request_to_bob ''file_size''))
                        (dict_get_default request_to_bob ''file_type'' (JStr ''application/octet-stream'')))
                     (b_breaks (length (wire two_members)) ''B'') # rest"
    and r4: "rest = Attempt ''A'' (error_notice (''User '' @ ''bob'' @ '' is not available''))
                                       (b_breaks (Suc (length (wire two_members))) ''A'') # rest'"
    using th c n(1) by blast
  have f: "fst (on_message b_breaks ''A'' ''r1'' (JObj response_to_bob) two_members) = Continue"
    by (simp only: r1 fst_conv)
  have w2: "wire (snd (on_message b_breaks ''A'' ''r1'' (JObj response_to_bob) two_members))
        = wire two_members
          @ [Attempt ''B'' (file_transfer_response (JStr ''alice'') (JBool True) (JStr ''Unknown file'')) False]"
    using r2 by (simp add: v n)
  have w3: "wire (snd (on_message b_breaks ''A'' ''r1'' (JObj request_to_bob) two_members))
        = wire two_members
          @ Attempt ''B'' (file_transfer_request (JStr ''alice'') (JStr ''a.txt'') (JInt 3)
                             (JStr ''application/octet-stream'')) False
          # Attempt ''A'' (error_notice ''User bob is not available'') True # rest'"
    using r3 r4 by (simp add: v n)
  show ?thesis
    using b n(1) f w2 w3 by blast
qed

end
